theory Spec2Isabelle
  imports Main
begin

section \<open>Python values\<close>

text \<open>
  A Python \<open>str\<close> is a sequence of Unicode code points, so a string is modelled as the
  list of its code points: \<open>length\<close> is Python's \<open>len\<close>, and characters outside
  ASCII (the apostrophe U+2019 of the refusal message, say) are single elements.
  \<open>py ''abc''\<close> is the string of an ASCII literal.
\<close>

type_synonym pystr = "nat list"

abbreviation py :: "string \<Rightarrow> pystr" where
  "py s \<equiv> map of_char s"

text \<open>
  \<open>str.strip()\<close> without argument removes leading and trailing white space, that is the
  code points on which \<open>str.isspace\<close> holds; \<open>s.strip(chars)\<close> removes the given
  characters instead.
\<close>

definition is_space :: "nat \<Rightarrow> bool" where
  "is_space c \<longleftrightarrow>
     (9 \<le> c \<and> c \<le> 13) \<or> (28 \<le> c \<and> c \<le> 32) \<or> c = 133 \<or> c = 160 \<or> c = 5760 \<or>
     (8192 \<le> c \<and> c \<le> 8202) \<or> c = 8232 \<or> c = 8233 \<or> c = 8239 \<or> c = 8287 \<or> c = 12288"

definition strip_with :: "(nat \<Rightarrow> bool) \<Rightarrow> pystr \<Rightarrow> pystr" where
  "strip_with P s = rev (dropWhile P (rev (dropWhile P s)))"

definition strip :: "pystr \<Rightarrow> pystr" where
  "strip s = strip_with is_space s"

text \<open>
  What \<open>json.loads\<close> returns, and what the dictionaries built from it hold: \<open>None\<close>,
  booleans, integers, strings, lists and objects with string keys. An object is the list
  of its items; \<open>dict_get\<close> finds a key as \<open>d.get(k)\<close> does (\<open>None\<close> when it is
  missing). Numbers with a fraction or an exponent (Python floats) are left out of the model.
\<close>

datatype pyval =
    PNone
  | PBool bool
  | PInt int
  | PStr pystr
  | PList "pyval list"
  | PDict "(pystr \<times> pyval) list"

text \<open>Truth value testing (\<open>if x\<close>, \<open>x or y\<close>, \<open>not x\<close>).\<close>

fun truthy :: "pyval \<Rightarrow> bool" where
  "truthy PNone = False"
| "truthy (PBool b) = b"
| "truthy (PInt i) = (i \<noteq> 0)"
| "truthy (PStr s) = (s \<noteq> [])"
| "truthy (PList xs) = (xs \<noteq> [])"
| "truthy (PDict d) = (d \<noteq> [])"

definition py_or :: "pyval \<Rightarrow> pyval \<Rightarrow> pyval" where
  "py_or a b = (if truthy a then a else b)"

definition dict_get :: "(pystr \<times> pyval) list \<Rightarrow> pystr \<Rightarrow> pyval" where
  "dict_get d k = (case map_of d k of None \<Rightarrow> PNone | Some v \<Rightarrow> v)"

definition dict_get_default :: "(pystr \<times> pyval) list \<Rightarrow> pystr \<Rightarrow> pyval \<Rightarrow> pyval" where
  "dict_get_default d k dflt = (case map_of d k of None \<Rightarrow> dflt | Some v \<Rightarrow> v)"

text \<open>
  Lists and dictionaries cannot be hashed: using one as a dictionary key, or testing
  \<open>x in d\<close> with it, raises \<open>TypeError\<close>. As keys, \<open>True\<close> and \<open>1\<close> are the same
  (and \<open>False\<close> and \<open>0\<close>).
\<close>

fun hashable :: "pyval \<Rightarrow> bool" where
  "hashable (PList xs) = False"
| "hashable (PDict d) = False"
| "hashable v = True"

fun key_eq :: "pyval \<Rightarrow> pyval \<Rightarrow> bool" where
  "key_eq (PBool b) (PInt i) = ((if b then 1 else 0) = i)"
| "key_eq (PInt i) (PBool b) = (i = (if b then 1 else 0))"
| "key_eq a b = (a = b)"

text \<open>
  \<open>str(x)\<close>, which is also what \<open>print\<close> writes for \<open>x\<close>: a string is itself, \<open>None\<close>
  and the booleans are their names, an integer is its decimal numeral. For a list or a
  dictionary it is the \<open>repr\<close> of the container, which the model takes as a parameter.
\<close>

function dec_digits :: "nat \<Rightarrow> pystr" where
  "dec_digits n = (if n < 10 then [48 + n] else dec_digits (n div 10) @ [48 + n mod 10])"
  by pat_completeness auto
termination
  by (relation "measure id") auto

definition int_str :: "int \<Rightarrow> pystr" where
  "int_str i = (if i < 0 then 45 # dec_digits (nat (- i)) else dec_digits (nat i))"

fun py_str :: "(pyval \<Rightarrow> pystr) \<Rightarrow> pyval \<Rightarrow> pystr" where
  "py_str repr PNone = py ''None''"
| "py_str repr (PBool b) = (if b then py ''True'' else py ''False'')"
| "py_str repr (PInt i) = int_str i"
| "py_str repr (PStr s) = s"
| "py_str repr v = repr v"

text \<open>The exceptions that the modelled code can raise and does not catch.\<close>

datatype error = AttributeError | TypeError

text \<open>\<open>sep.join(xs)\<close> and the slice \<open>xs[:k]\<close>, where a negative \<open>k\<close> counts from the end.\<close>

fun join :: "pystr \<Rightarrow> pystr list \<Rightarrow> pystr" where
  "join sep [] = []"
| "join sep [x] = x"
| "join sep (x # y # ys) = x @ sep @ join sep (y # ys)"

definition slice_to :: "int \<Rightarrow> 'a list \<Rightarrow> 'a list" where
  "slice_to k xs = (if 0 \<le> k then take (nat k) xs else take (length xs - nat (- k)) xs)"

text \<open>\<open>x or ""\<close> for an optional string.\<close>

definition str_or_empty :: "pystr option \<Rightarrow> pystr" where
  "str_or_empty x = (case x of None \<Rightarrow> [] | Some s \<Rightarrow> s)"

section \<open>LLM_Aditional.py: slugs for file names\<close>




section \<open>tools.py: the catalog loader and the summary tool\<close>

text \<open>
  \<open>parse_json\<close> reads the file line by line. The file is the list of its lines (a file
  that cannot be opened is outside the model); \<open>loads\<close> is \<open>json.loads\<close>, with
  \<open>None\<close> for \<open>JSONDecodeError\<close>, and \<open>repr\<close> is as in \<open>py_str\<close>.

  The dictionary under construction is the list of its items in insertion order. Its keys
  and values are what the decoder gave: nothing in the code checks that a title or a
  summary is a string. \<open>dict_set\<close> is \<open>books[k] = v\<close>: an existing key keeps its place.

  \<open>load_row\<close> is the loop body after decoding: \<open>row.get\<close> exists on a dictionary only,
  so any other decoded value raises \<open>AttributeError\<close>; a title that cannot be hashed
  raises \<open>TypeError\<close> at the assignment. \<open>Inr None\<close> is \<open>continue\<close>.
\<close>

type_synonym raw_entry = "pyval \<times> pyval list"

type_synonym raw_books = "(pyval \<times> raw_entry) list"

fun dict_set :: "raw_books \<Rightarrow> pyval \<Rightarrow> raw_entry \<Rightarrow> raw_books" where
  "dict_set [] k v = [(k, v)]"
| "dict_set ((k', v') # d) k v =
     (if key_eq k' k then (k', v) # d else (k', v') # dict_set d k v)"

definition coerce_themes :: "(pyval \<Rightarrow> pystr) \<Rightarrow> pyval \<Rightarrow> pyval list" where
  "coerce_themes repr field =
     (let themes = py_or field (PList [])
      in case themes of PList xs \<Rightarrow> xs | _ \<Rightarrow> [PStr (py_str repr themes)])"

definition load_row :: "(pyval \<Rightarrow> pystr) \<Rightarrow> pyval \<Rightarrow> error + (pyval \<times> raw_entry) option" where
  "load_row repr row =
     (case row of
        PDict d \<Rightarrow>
          (let title = dict_get d (py ''title'') in
           if \<not> truthy title then Inr None
           else
             let summary = dict_get d (py ''summary_short'');
                 themes = coerce_themes repr (dict_get d (py ''themes''))
             in if hashable title then Inr (Some (title, (summary, themes)))
                else Inl TypeError)
      | _ \<Rightarrow> Inl AttributeError)"

fun parse_lines ::
  "(pystr \<Rightarrow> pyval option) \<Rightarrow> (pyval \<Rightarrow> pystr) \<Rightarrow> raw_books \<Rightarrow> pystr list \<Rightarrow> error + raw_books"
where
  "parse_lines loads repr books [] = Inr books"
| "parse_lines loads repr books (line # rest) =
     (if strip line = [] then parse_lines loads repr books rest
      else
        case loads line of
          None \<Rightarrow> parse_lines loads repr books rest
        | Some row \<Rightarrow>
            (case load_row repr row of
               Inl e \<Rightarrow> Inl e
             | Inr None \<Rightarrow> parse_lines loads repr books rest
             | Inr (Some (title, entry)) \<Rightarrow>
                 parse_lines loads repr (dict_set books title entry) rest))"

definition parse_json ::
  "(pystr \<Rightarrow> pyval option) \<Rightarrow> (pyval \<Rightarrow> pystr) \<Rightarrow> pystr list \<Rightarrow> error + raw_books"
where
  "parse_json loads repr file = parse_lines loads repr [] file"

text \<open>
  The rest of the program takes the catalog at its declared type
  \<^verbatim>\<open>BooksDict = Dict[str, Tuple[Optional[str], List[str]]]\<close>, in iteration order.
  The tool is the closure \<open>get_summary_by_title\<close>; a stored entry is a pair and so is
  never false.
\<close>

type_synonym books_dict = "(pystr \<times> (pystr option \<times> pystr list)) list"

definition make_get_summary_tool :: "books_dict \<Rightarrow> pystr \<Rightarrow> pystr" where
  "make_get_summary_tool books title =
     (case map_of books title of
        None \<Rightarrow> []
      | Some entry \<Rightarrow> str_or_empty (fst entry))"

text \<open>Two strings differ in case only: they are different and equal after ASCII lower-casing.\<close>

definition lower_char :: "nat \<Rightarrow> nat" where
  "lower_char c = (if 65 \<le> c \<and> c \<le> 90 then c + 32 else c)"

definition differs_in_case_only :: "pystr \<Rightarrow> pystr \<Rightarrow> bool" where
  "differs_in_case_only s t \<longleftrightarrow> s \<noteq> t \<and> map lower_char s = map lower_char t"

section \<open>vectorDB.py: the payload for the vector store and the context block\<close>

text \<open>
  \<open>build_chroma_payload\<close> appends to three lists while it iterates over the items of
  the catalog. A metadata record is the list of its items.
\<close>

type_synonym meta = "(pystr \<times> pystr) list"

fun payload_loop ::
  "books_dict \<Rightarrow> pystr list \<times> pystr list \<times> meta list \<Rightarrow> pystr list \<times> pystr list \<times> meta list"
where
  "payload_loop [] acc = acc"
| "payload_loop ((title, (summary, themes)) # rest) (ids, docs, metas) =
     payload_loop rest
       (ids @ [title],
        docs @ [str_or_empty summary],
        metas @ [[(py ''title'', title), (py ''themes'', join (py '', '') themes)]])"

definition build_chroma_payload :: "books_dict \<Rightarrow> pystr list \<times> pystr list \<times> meta list" where
  "build_chroma_payload books = payload_loop books ([], [], [])"

text \<open>
  The response of the vector store's query, at its declared type: \<open>documents\<close> and
  \<open>metadatas\<close> are absent (\<open>None\<close>) or hold one list per query text.
  \<open>first_list v\<close> is \<^verbatim>\<open>(v or [[]])[0]\<close>. The newline is code point 10.
\<close>

record results =
  documents :: "pystr list list option"
  metadatas :: "meta list list option"

definition first_list :: "'a list list option \<Rightarrow> 'a list" where
  "first_list v = (case v of None \<Rightarrow> [] | Some [] \<Rightarrow> [] | Some (x # _) \<Rightarrow> x)"

definition stanza :: "pystr \<times> meta \<Rightarrow> pystr" where
  "stanza hit =
     (case hit of (d, m) \<Rightarrow>
        let title = (case map_of m (py ''title'') of None \<Rightarrow> py ''Unknown'' | Some t \<Rightarrow> t)
        in py ''Title: '' @ title @ [10] @ py ''Summary: '' @ d)"

definition build_context_from_results :: "results \<Rightarrow> int \<Rightarrow> pystr" where
  "build_context_from_results results k =
     (let docs = first_list (documents results);
          metas = first_list (metadatas results)
      in join [10, 10] (map stanza (slice_to k (zip docs metas))))"

section \<open>main.py: the report and the orchestration\<close>

text \<open>
  \<open>print(a, b)\<close> writes \<open>a\<close>, a space and \<open>b\<close>, and ends the line. A printed line
  is recorded without the newline that ends it. \<open>print_result\<close> returns the lines it
  printed, and the exception that ended it, if any. Its \<open>data\<close> is the decoded answer of
  the model, a dictionary of JSON values; the catalog has string keys, so only a string can
  be found in it, and testing \<open>title in books\<close> with a list or a dictionary raises.
\<close>

definition print2 :: "pystr \<Rightarrow> pystr \<Rightarrow> pystr" where
  "print2 a b = a @ [32] @ b"

definition book_lookup :: "books_dict \<Rightarrow> pyval \<Rightarrow> (pystr option \<times> pystr list) option" where
  "book_lookup books title = (case title of PStr t \<Rightarrow> map_of books t | _ \<Rightarrow> None)"

definition print_result ::
  "(pyval \<Rightarrow> pystr) \<Rightarrow> (pystr \<times> pyval) list \<Rightarrow> books_dict \<Rightarrow> pystr list \<times> error option"
where
  "print_result repr data books =
     (let status = dict_get data (py ''status'') in
      if status = PStr (py ''ok'') then
        (let line =
               print2 (10 # py ''Bot>'')
                 (py_str repr
                    (py_or (dict_get data (py ''verbal''))
                       (dict_get_default data (py ''blurb'') (PStr []))));
             title = dict_get data (py ''title'')
         in if \<not> truthy title then ([line], None)
            else if \<not> hashable title then ([line], Some TypeError)
            else
              case book_lookup books title of
                None \<Rightarrow> ([line], None)
              | Some entry \<Rightarrow>
                  (let summary = str_or_empty (fst entry)
                   in if summary \<noteq> []
                      then ([line, 10 # py ''[Summary]'' @ [10] @ summary], None)
                      else ([line], None)))
      else if status = PStr (py ''no_match'') then
        ([10 # py ''Bot> I couldn't match anything in the context.''], None)
      else if status = PStr (py ''refuse'') then
        ([10 # py ''Bot> I can'' @ [8217] @ py ''t help with that request.''], None)
      else
        ([print2 (10 # py ''Bot>'')
            (py_str repr (dict_get_default data (py ''verbal'') (PStr [])))], None))"

text \<open>
  The first response of the model, as \<open>main\<close> reads it: its \<open>output_text\<close> and the
  items of \<open>model_dump()["output"]\<close>. An item or a message part of type
  \<open>function_call\<close> carries the keys \<open>call_id\<close>, \<open>id\<close>, \<open>name\<close> and
  \<open>arguments\<close>, each absent or a string.
\<close>

record call =
  c_call_id :: "pystr option"
  c_id :: "pystr option"
  c_name :: "pystr option"
  c_arguments :: "pystr option"

datatype part = FunctionCallPart call | OtherPart

datatype item = FunctionCallItem call | MessageItem "part list" | OtherItem

record response =
  output_text :: pystr
  output_items :: "item list"

definition first_final_data :: "(pystr \<Rightarrow> pyval option) \<Rightarrow> response \<Rightarrow> pyval option" where
  "first_final_data loads first =
     (if output_text first \<noteq> [] then
        (case loads (output_text first) of
           None \<Rightarrow> None
         | Some parsed \<Rightarrow>
             (case parsed of
                PDict d \<Rightarrow> if truthy (dict_get d (py ''status'')) then Some parsed else None
              | _ \<Rightarrow> None))
      else None)"

fun find_part :: "part list \<Rightarrow> call option" where
  "find_part [] = None"
| "find_part (FunctionCallPart c # ps) = Some c"
| "find_part (OtherPart # ps) = find_part ps"

fun find_call :: "item list \<Rightarrow> call option" where
  "find_call [] = None"
| "find_call (FunctionCallItem c # rest) = Some c"
| "find_call (MessageItem parts # rest) =
     (case find_part parts of Some c \<Rightarrow> Some c | None \<Rightarrow> find_call rest)"
| "find_call (OtherItem # rest) = find_call rest"

text \<open>
  The fallback title of step 2: the set of the non-empty titles of the retrieved
  metadata, when it has exactly one element.
\<close>

definition valid_titles :: "meta list \<Rightarrow> pystr list" where
  "valid_titles metas_list =
     remdups (filter (\<lambda>t. t \<noteq> []) (List.map_filter (\<lambda>m. map_of m (py ''title'')) metas_list))"

definition only_title :: "results \<Rightarrow> pystr option" where
  "only_title results =
     (case valid_titles (first_list (metadatas results)) of [t] \<Rightarrow> Some t | _ \<Rightarrow> None)"

text \<open>
  \<^verbatim>\<open>json.loads(x or "{}")\<close>: an absent or empty text is decoded as the empty object.
  \<open>call_args\<close> is lines 170 to 174, where an undecodable text counts as the empty
  object, and \<open>title_argument\<close> lines 177 to 179: \<open>args.get\<close> needs a dictionary and
  \<open>.strip()\<close> a string, otherwise \<open>AttributeError\<close> is raised. \<open>tool_result\<close> is
  lines 181 to 183, and \<open>call_identifier\<close> line 168.
\<close>

definition loads_or_empty_object :: "(pystr \<Rightarrow> pyval option) \<Rightarrow> pystr option \<Rightarrow> pyval option" where
  "loads_or_empty_object loads x =
     (case x of
        None \<Rightarrow> Some (PDict [])
      | Some s \<Rightarrow> if s \<noteq> [] then loads s else Some (PDict []))"

definition call_args :: "(pystr \<Rightarrow> pyval option) \<Rightarrow> call \<Rightarrow> pyval" where
  "call_args loads call =
     (case loads_or_empty_object loads (c_arguments call) of
        None \<Rightarrow> PDict []
      | Some args \<Rightarrow> args)"

definition title_argument ::
  "(pystr \<Rightarrow> pyval option) \<Rightarrow> call \<Rightarrow> pystr option \<Rightarrow> error + pystr"
where
  "title_argument loads call fallback =
     (case call_args loads call of
        PDict d \<Rightarrow>
          (case py_or (dict_get d (py ''title'')) (PStr []) of
             PStr s \<Rightarrow>
               (let title_arg = strip s
                in Inr (case fallback of
                          None \<Rightarrow> title_arg
                        | Some t \<Rightarrow> if title_arg = [] \<and> t \<noteq> [] then t else title_arg))
           | _ \<Rightarrow> Inl AttributeError)
      | _ \<Rightarrow> Inl AttributeError)"

definition call_identifier :: "call \<Rightarrow> pystr option" where
  "call_identifier call =
     (case c_call_id call of
        None \<Rightarrow> c_id call
      | Some s \<Rightarrow> if s \<noteq> [] then Some s else c_id call)"

definition tool_result :: "books_dict \<Rightarrow> call \<Rightarrow> pystr \<Rightarrow> pystr" where
  "tool_result books call title_arg =
     (if c_name call = Some (py ''get_summary_by_title'')
      then make_get_summary_tool books title_arg
      else [])"

text \<open>
  What the run receives from outside after the retrieval: the first response, the text
  of the second response (given the call identifier and the tool output sent to it), the
  two yes/no answers (whether the stripped, lower-cased answer starts with \<open>y\<close>), and the
  outcome of each media call: the saved path, or the message of the exception it raised.
  A run is the list of its events in order, and the uncaught exception that ended it, if any.
\<close>

record world =
  first :: response
  final_output_text :: "pystr option \<Rightarrow> pystr \<Rightarrow> pystr"
  yes_image :: bool
  yes_tts :: bool
  generate_cover_image :: "pyval \<Rightarrow> pyval \<Rightarrow> pystr + pystr"
  speak_text :: "pyval \<Rightarrow> pyval \<Rightarrow> pystr + pystr"

datatype event =
    Print pystr
  | FunctionCallOutput "pystr option" pystr
  | AskImage
  | CoverImage pyval pyval
  | AskTTS
  | SpeakText pyval pyval

fun is_media :: "event \<Rightarrow> bool" where
  "is_media (Print s) = False"
| "is_media (FunctionCallOutput c r) = False"
| "is_media e = True"

text \<open>
  Lines 136 to 201: the final data (\<open>Inr\<close>, with the events so far), or the end of
  the run (\<open>Inl\<close>) by a raw dump or an exception.
\<close>

definition raw_response :: "pystr \<Rightarrow> event" where
  "raw_response text = Print (print2 (10 # py ''Raw response:'' @ [10]) text)"

definition resolve ::
  "(pystr \<Rightarrow> pyval option) \<Rightarrow> world \<Rightarrow> books_dict \<Rightarrow> results \<Rightarrow>
     (event list \<times> error option) + (event list \<times> pyval)"
where
  "resolve loads w books results =
     (case first_final_data loads (first w) of
        Some final_data \<Rightarrow> Inr ([], final_data)
      | None \<Rightarrow>
          (case find_call (output_items (first w)) of
             None \<Rightarrow>
               Inl ([raw_response
                       (if output_text (first w) \<noteq> [] then output_text (first w)
                        else py ''(no text and no tool call)'')], None)
           | Some call \<Rightarrow>
               (case title_argument loads call (only_title results) of
                  Inl e \<Rightarrow> Inl ([], Some e)
                | Inr title_arg \<Rightarrow>
                    (let call_id = call_identifier call;
                         result = tool_result books call title_arg;
                         text = final_output_text w call_id result
                     in case loads_or_empty_object loads (Some text) of
                          None \<Rightarrow>
                            Inl ([FunctionCallOutput call_id result, raw_response text], None)
                        | Some final_data \<Rightarrow>
                            Inr ([FunctionCallOutput call_id result], final_data)))))"

text \<open>Lines 208 to 228, entered under the guard of line 207.\<close>

definition media ::
  "(pyval \<Rightarrow> pystr) \<Rightarrow> world \<Rightarrow> books_dict \<Rightarrow> (pystr \<times> pyval) list \<Rightarrow> event list \<times> error option"
where
  "media repr w books d =
     (let title = dict_get d (py ''title'');
          blurb = dict_get d (py ''blurb'')
      in if \<not> truthy blurb \<and> \<not> hashable title then ([], Some TypeError)
         else
           (let blurb_or_summary =
                  (if truthy blurb then blurb
                   else PStr (case book_lookup books title of
                                None \<Rightarrow> []
                              | Some entry \<Rightarrow> str_or_empty (fst entry)));
                verbal_text =
                  py_or (dict_get d (py ''verbal''))
                    (py_or blurb (PStr (py ''Recommendation: '' @ py_str repr title)));
                image =
                  (if yes_image w then
                     [CoverImage title blurb_or_summary,
                      Print (case generate_cover_image w title blurb_or_summary of
                               Inr path \<Rightarrow> py ''[image saved] '' @ path
                             | Inl e \<Rightarrow> py ''[image error] '' @ e)]
                   else []);
                tts =
                  (if yes_tts w then
                     [SpeakText title verbal_text,
                      Print (case speak_text w title verbal_text of
                               Inr path \<Rightarrow> py ''[audio saved] '' @ path
                             | Inl e \<Rightarrow> py ''[tts error] '' @ e)]
                   else [])
            in (AskImage # image @ AskTTS # tts, None)))"

text \<open>Lines 204 to 207: \<open>print_result\<close> calls \<open>data.get\<close>, which a decoded value that
  is not a dictionary does not have.\<close>

definition report ::
  "(pyval \<Rightarrow> pystr) \<Rightarrow> world \<Rightarrow> books_dict \<Rightarrow> pyval \<Rightarrow> event list \<times> error option"
where
  "report repr w books final_data =
     (case final_data of
        PDict d \<Rightarrow>
          (case print_result repr d books of
             (printed, Some e) \<Rightarrow> (map Print printed, Some e)
           | (printed, None) \<Rightarrow>
               if truthy final_data \<and> dict_get d (py ''status'') = PStr (py ''ok'')
                  \<and> truthy (dict_get d (py ''title''))
               then (case media repr w books d of (es, r) \<Rightarrow> (map Print printed @ es, r))
               else (map Print printed, None))
      | _ \<Rightarrow> ([], Some AttributeError))"

text \<open>
  \<open>main\<close> from the query result on (steps 3 to 8); the catalog and the response of the
  vector store are its arguments, and \<open>TOP_K\<close> is 1.
\<close>

definition main ::
  "(pystr \<Rightarrow> pyval option) \<Rightarrow> (pyval \<Rightarrow> pystr) \<Rightarrow> world \<Rightarrow> books_dict \<Rightarrow> results \<Rightarrow>
     event list \<times> error option"
where
  "main loads repr w books results =
     (let context = build_context_from_results results 1;
          shown = Print (10 # py ''Context:'' @ [10] @ py ''---'' @ [10] @ context @ [10] @ py ''---'')
      in case resolve loads w books results of
           Inl (es, r) \<Rightarrow> (shown # es, r)
         | Inr (es, final_data) \<Rightarrow>
             (case report repr w books final_data of (es', r) \<Rightarrow> (shown # es @ es', r)))"

section \<open>Example inputs\<close>

text \<open>A catalog of two entries; the second has no summary and no themes.\<close>

definition books_demo :: books_dict where
  "books_demo =
     [(py ''Dune'', (Some (py ''A desert planet saga.''), [py ''scifi'', py ''desert''])),
      (py ''Emma'', (None, []))]"

text \<open>Query results: one hit; no hit; three documents against two metadata records, the
  second without a title.\<close>

definition hit_demo :: results where
  "hit_demo =
     \<lparr>documents = Some [[py ''A desert planet saga.'']],
      metadatas = Some [[[(py ''title'', py ''Dune''), (py ''themes'', py ''scifi'')]]]\<rparr>"

definition no_hits_demo :: results where
  "no_hits_demo = \<lparr>documents = Some [[]], metadatas = Some [[]]\<rparr>"

definition two_hits_demo :: results where
  "two_hits_demo =
     \<lparr>documents = Some [[py ''A desert planet saga.'', py ''A matchmaker errs.'', py ''Unpaired.'']],
      metadatas = Some [[[(py ''title'', py ''Dune'')], [(py ''themes'', py ''comedy'')]]]\<rparr>"

text \<open>
  The values of \<open>json.loads\<close> on the lines and model outputs used in the examples (any
  other text is taken as undecodable there), and a \<open>repr\<close> for them: no example prints
  or converts a list or a dictionary, so it is never applied.
\<close>

definition loads_demo :: "pystr \<Rightarrow> pyval option" where
  \<open>loads_demo =
     map_of
       [(py ''{"title": "Dune", "summary_short": "A desert planet saga.", "themes": ["scifi"]}'',
           PDict [(py ''title'', PStr (py ''Dune'')),
                  (py ''summary_short'', PStr (py ''A desert planet saga.'')),
                  (py ''themes'', PList [PStr (py ''scifi'')])]),
        (py ''["Dune"]'', PList [PStr (py ''Dune'')]),
        (py ''{"title": "Emma", "themes": 0}'',
           PDict [(py ''title'', PStr (py ''Emma'')), (py ''themes'', PInt 0)]),
        (py ''{"title": "Emma", "themes": "comedy"}'',
           PDict [(py ''title'', PStr (py ''Emma'')), (py ''themes'', PStr (py ''comedy''))]),
        (py ''{"title": "Emma"}'', PDict [(py ''title'', PStr (py ''Emma''))]),
        (py ''{"title": "   "}'', PDict [(py ''title'', PStr (py ''   ''))]),
        (py ''{"title": "Dune"}'', PDict [(py ''title'', PStr (py ''Dune''))]),
        (py ''{"status": "no_match"}'', PDict [(py ''status'', PStr (py ''no_match''))]),
        (py ''{"blurb": "A fine book."}'', PDict [(py ''blurb'', PStr (py ''A fine book.''))]),
        (py ''{"status": "ok", "title": "Dune", "verbal": "I recommend Dune."}'',
           PDict [(py ''status'', PStr (py ''ok'')), (py ''title'', PStr (py ''Dune'')),
                  (py ''verbal'', PStr (py ''I recommend Dune.''))])]\<close>

definition repr_demo :: "pyval \<Rightarrow> pystr" where
  "repr_demo v = []"

text \<open>A tool call whose title argument is three spaces, and a query result with two titles.\<close>

definition call_blank_demo :: call where
  \<open>call_blank_demo =
     \<lparr>c_call_id = Some (py ''call_1''), c_id = None,
      c_name = Some (py ''get_summary_by_title''),
      c_arguments = Some (py ''{"title": "   "}'')\<rparr>\<close>

definition two_titles_demo :: results where
  "two_titles_demo =
     \<lparr>documents = Some [[py ''A desert planet saga.'', py ''A matchmaker errs.'']],
      metadatas = Some [[[(py ''title'', py ''Dune'')], [(py ''title'', py ''Emma'')]]]\<rparr>"

text \<open>
  A run in which the first response is a call of the tool for \<open>Dune\<close> and the second
  response has the given text; the user asks for the image only, and the image is saved.
\<close>

definition call_dune_demo :: call where
  \<open>call_dune_demo =
     \<lparr>c_call_id = Some (py ''call_1''), c_id = None,
      c_name = Some (py ''get_summary_by_title''),
      c_arguments = Some (py ''{"title": "Dune"}'')\<rparr>\<close>

definition world_demo :: "pystr \<Rightarrow> world" where
  "world_demo final =
     \<lparr>first = \<lparr>output_text = [], output_items = [FunctionCallItem call_dune_demo]\<rparr>,
      final_output_text = (\<lambda>call_id result. final),
      yes_image = True,
      yes_tts = False,
      generate_cover_image = (\<lambda>title blurb. Inr (py ''Images and TTS/cover_Dune.png'')),
      speak_text = (\<lambda>title text. Inl (py ''quota exceeded''))\<rparr>"

section \<open>Properties of the slug\<close>





















section \<open>Properties of the vector payload\<close>

lemma payload_loop_maps:
  "payload_loop books (ids, docs, metas) =
     (ids @ map fst books,
      docs @ map (\<lambda>e. str_or_empty (fst (snd e))) books,
      metas @ map (\<lambda>e. [(py ''title'', fst e), (py ''themes'', join (py '', '') (snd (snd e)))]) books)"
  by (induction books arbitrary: ids docs metas) auto

lemma build_chroma_payload_maps:
  "build_chroma_payload books =
     (map fst books,
      map (\<lambda>e. str_or_empty (fst (snd e))) books,
      map (\<lambda>e. [(py ''title'', fst e), (py ''themes'', join (py '', '') (snd (snd e)))]) books)"
  by (simp add: build_chroma_payload_def payload_loop_maps)

text \<open>
  Claim C2: for every catalog, \<open>build_chroma_payload\<close> returns three lists as long as the
  catalog, and at every index \<open>i\<close> the id is the title of the \<open>i\<close>-th entry in iteration
  order, the document is its summary (the empty string when there is none), and the
  metadata is the record of that title and of the themes joined by a comma and a space.
\<close>

theorem build_chroma_payload_parallel:
  "case build_chroma_payload books of
     (ids, docs, metas) \<Rightarrow>
       length ids = length books \<and> length docs = length books \<and> length metas = length books \<and>
       (\<forall>i<length books.
          case books ! i of
            (title, summary, themes) \<Rightarrow>
              ids ! i = title \<and>
              docs ! i = (case summary of None \<Rightarrow> [] | Some s \<Rightarrow> s) \<and>
              metas ! i = [(py ''title'', title), (py ''themes'', join (py '', '') themes)])"
  by (auto simp: build_chroma_payload_maps str_or_empty_def split: prod.splits option.splits)

theorem build_chroma_payload_parallel_witness:
  "(1::nat) < length books_demo \<and>
   fst (build_chroma_payload books_demo) ! 1 = py ''Emma'' \<and>
   fst (snd (build_chroma_payload books_demo)) ! 1 = [] \<and>
   snd (snd (build_chroma_payload books_demo)) ! 1 = [(py ''title'', py ''Emma''), (py ''themes'', [])] \<and>
   fst (build_chroma_payload books_demo) ! 0 = py ''Dune'' \<and>
   fst (snd (build_chroma_payload books_demo)) ! 0 = py ''A desert planet saga.'' \<and>
   snd (snd (build_chroma_payload books_demo)) ! 0 =
     [(py ''title'', py ''Dune''), (py ''themes'', py ''scifi, desert'')]"
proof -
  have n: "(1::nat) < length books_demo" "(0::nat) < length books_demo"
    by (simp_all add: books_demo_def)
  obtain ids docs metas where p: "build_chroma_payload books_demo = (ids, docs, metas)"
    by (cases "build_chroma_payload books_demo") auto
  have b: "books_demo ! 1 = (py ''Emma'', (None, []))"
    "books_demo ! 0 = (py ''Dune'', (Some (py ''A desert planet saga.''), [py ''scifi'', py ''desert'']))"
    by (simp_all add: books_demo_def)
  from build_chroma_payload_parallel [of books_demo] p n b
  have "ids ! 1 = py ''Emma'' \<and> docs ! 1 = [] \<and>
        metas ! 1 = [(py ''title'', py ''Emma''), (py ''themes'', join (py '', '') [])]"
    and "ids ! 0 = py ''Dune'' \<and> docs ! 0 = py ''A desert planet saga.'' \<and>
        metas ! 0 = [(py ''title'', py ''Dune''), (py ''themes'', join (py '', '') [py ''scifi'', py ''desert''])]"
    by (auto split: prod.splits)
  with p n show ?thesis by simp
qed

section \<open>Properties of the context block\<close>

lemma slice_to_all: "int (length xs) \<le> k \<Longrightarrow> slice_to k xs = xs"
  by (simp add: slice_to_def)

lemma slice_to_length:
  "length (slice_to k xs) = (if 0 \<le> k then min (nat k) (length xs) else length xs - nat (- k))"
  by (auto simp: slice_to_def)

lemma take_min_length: "take (min n (length xs)) xs = take n xs"
  by (cases "n \<le> length xs") (simp_all add: min_def)

lemma slice_to_take: "slice_to k xs = take (length (slice_to k xs)) xs"
proof (cases "0 \<le> k")
  case True
  then have "length (slice_to k xs) = min (nat k) (length xs)"
    by (simp add: slice_to_def)
  with True show ?thesis
    by (simp only: take_min_length) (simp add: slice_to_def)
next
  case False
  then have "length (slice_to k xs) = length xs - nat (- k)"
    by (simp add: slice_to_def)
  with False show ?thesis
    by (simp add: slice_to_def)
qed

lemma take_zip_nth:
  "n \<le> length xs \<Longrightarrow> n \<le> length ys \<Longrightarrow>
   take n (zip xs ys) = map (\<lambda>i. (xs ! i, ys ! i)) [0..<n]"
  by (rule nth_equalityI) auto

text \<open>
  Claim C3: with \<open>k = 1\<close> and exactly one hit the context is the single stanza
  \<open>Title: X\<close>, newline, \<open>Summary: Y\<close> of that hit; with no hit it is the empty
  string, whatever \<open>k\<close> is; and with \<open>k\<close> greater than the number of hits it is the
  stanzas of all the hits, joined by a blank line. The function has no failing branch.
\<close>

theorem build_context_hits:
  "(first_list (documents r) = [d] \<and> first_list (metadatas r) = [m] \<and>
      map_of m (py ''title'') = Some x \<longrightarrow>
      build_context_from_results r 1 = py ''Title: '' @ x @ [10] @ py ''Summary: '' @ d) \<and>
   (first_list (documents r) = [] \<or> first_list (metadatas r) = [] \<longrightarrow>
      build_context_from_results r k = []) \<and>
   (int (length (zip (first_list (documents r)) (first_list (metadatas r)))) < k \<longrightarrow>
      build_context_from_results r k =
        join [10, 10] (map stanza (zip (first_list (documents r)) (first_list (metadatas r)))))"
  by (auto simp: build_context_from_results_def Let_def slice_to_def stanza_def)

theorem build_context_hits_witness:
  "build_context_from_results hit_demo 1 = py ''Title: Dune'' @ [10] @ py ''Summary: A desert planet saga.'' \<and>
   build_context_from_results no_hits_demo 1 = [] \<and>
   build_context_from_results two_hits_demo 5 =
     py ''Title: Dune'' @ [10] @ py ''Summary: A desert planet saga.'' @ [10, 10] @
     py ''Title: Unknown'' @ [10] @ py ''Summary: A matchmaker errs.''"
proof -
  have a: "first_list (documents hit_demo) = [py ''A desert planet saga.'']"
    "first_list (metadatas hit_demo) = [[(py ''title'', py ''Dune''), (py ''themes'', py ''scifi'')]]"
    "map_of [(py ''title'', py ''Dune''), (py ''themes'', py ''scifi'')] (py ''title'') = Some (py ''Dune'')"
    by (simp_all add: hit_demo_def first_list_def)
  have b: "first_list (documents no_hits_demo) = []"
    by (simp add: no_hits_demo_def first_list_def)
  have c: "first_list (documents two_hits_demo) = [py ''A desert planet saga.'', py ''A matchmaker errs.'', py ''Unpaired.'']"
    "first_list (metadatas two_hits_demo) = [[(py ''title'', py ''Dune'')], [(py ''themes'', py ''comedy'')]]"
    by (simp_all add: two_hits_demo_def first_list_def)
  then have c': "int (length (zip (first_list (documents two_hits_demo)) (first_list (metadatas two_hits_demo)))) < 5"
    by simp
  have "build_context_from_results hit_demo 1 = py ''Title: '' @ py ''Dune'' @ [10] @ py ''Summary: '' @ py ''A desert planet saga.''"
    using build_context_hits [of hit_demo _ _ _ 1] a by blast
  moreover have "build_context_from_results no_hits_demo 1 = []"
    using build_context_hits [of no_hits_demo _ _ _ 1] b by blast
  moreover have "build_context_from_results two_hits_demo 5 =
      join [10, 10] (map stanza (zip (first_list (documents two_hits_demo)) (first_list (metadatas two_hits_demo))))"
    using build_context_hits [of two_hits_demo _ _ _ 5] c' by blast
  ultimately show ?thesis
    by (simp add: c stanza_def)
qed

text \<open>
  Claim C10: for every query result and every \<open>k\<close>, the context pairs the documents and
  the metadata records by position, and the number of stanzas is bounded by the shorter of
  the two lists, so the unpaired tail of the longer one is dropped; a metadata record
  without a \<open>title\<close> key gives the stanza \<open>Title: Unknown\<close>.
\<close>

theorem build_context_total:
  "build_context_from_results r k =
     join [10, 10]
       (map (\<lambda>i. stanza (first_list (documents r) ! i, first_list (metadatas r) ! i))
          [0..<length (slice_to k (zip (first_list (documents r)) (first_list (metadatas r))))]) \<and>
   length (slice_to k (zip (first_list (documents r)) (first_list (metadatas r)))) =
     (let n = min (length (first_list (documents r))) (length (first_list (metadatas r)))
      in if 0 \<le> k then min (nat k) n else n - nat (- k)) \<and>
   (map_of m (py ''title'') = None \<longrightarrow>
      stanza (d, m) = py ''Title: Unknown'' @ [10] @ py ''Summary: '' @ d)"
proof -
  let ?docs = "first_list (documents r)" and ?metas = "first_list (metadatas r)"
  let ?n = "length (slice_to k (zip ?docs ?metas))"
  have le: "?n \<le> length ?docs" "?n \<le> length ?metas"
    by (auto simp: slice_to_length)
  have "slice_to k (zip ?docs ?metas) = take ?n (zip ?docs ?metas)"
    by (rule slice_to_take)
  also have "\<dots> = map (\<lambda>i. (?docs ! i, ?metas ! i)) [0..<?n]"
    using le by (rule take_zip_nth)
  finally have "map stanza (slice_to k (zip ?docs ?metas)) =
      map stanza (map (\<lambda>i. (?docs ! i, ?metas ! i)) [0..<?n])"
    by (rule arg_cong)
  then have "map stanza (slice_to k (zip ?docs ?metas)) =
      map (\<lambda>i. stanza (?docs ! i, ?metas ! i)) [0..<?n]"
    by (simp only: map_map comp_def)
  then show ?thesis
    by (simp add: build_context_from_results_def Let_def slice_to_length stanza_def)
qed

theorem build_context_total_witness:
  "map_of [(py ''themes'', py ''comedy'')] (py ''title'') = None \<and>
   stanza (py ''A matchmaker errs.'', [(py ''themes'', py ''comedy'')]) =
     py ''Title: Unknown'' @ [10] @ py ''Summary: A matchmaker errs.'' \<and>
   length (slice_to 5 (zip (first_list (documents two_hits_demo)) (first_list (metadatas two_hits_demo)))) = 2"
proof -
  have a: "map_of [(py ''themes'', py ''comedy'')] (py ''title'') = None"
    by simp
  have c: "first_list (documents two_hits_demo) = [py ''A desert planet saga.'', py ''A matchmaker errs.'', py ''Unpaired.'']"
    "first_list (metadatas two_hits_demo) = [[(py ''title'', py ''Dune'')], [(py ''themes'', py ''comedy'')]]"
    by (simp_all add: two_hits_demo_def first_list_def)
  from a show ?thesis
    using build_context_total [of two_hits_demo 5 "[(py ''themes'', py ''comedy'')]" "py ''A matchmaker errs.''"]
    by (simp add: c)
qed

section \<open>Properties of the catalog loader\<close>

lemma load_row_title: "load_row repr row = Inr (Some (t, e)) \<Longrightarrow> truthy t \<and> hashable t"
  by (auto simp: load_row_def Let_def split: pyval.splits if_splits)

lemma dict_set_keys: "fst ` set (dict_set d k v) \<subseteq> insert k (fst ` set d)"
  by (induction d k v rule: dict_set.induct) auto

lemma dict_set_length: "length (dict_set d k v) \<le> Suc (length d)"
  by (induction d k v rule: dict_set.induct) auto

lemma parse_lines_skip:
  "strip line = [] \<or> loads line = None \<or>
   (\<exists>d. loads line = Some (PDict d) \<and> \<not> truthy (dict_get d (py ''title''))) \<Longrightarrow>
   parse_lines loads repr books (line # rest) = parse_lines loads repr books rest"
  by (auto simp: load_row_def)

lemma parse_lines_returned:
  "parse_lines loads repr books ls = Inr books' \<Longrightarrow>
   \<forall>t\<in>fst ` set books. truthy t \<Longrightarrow>
   (\<forall>t\<in>fst ` set books'. truthy t) \<and>
   length books' \<le> length books + length (filter (\<lambda>l. strip l \<noteq> []) ls)"
proof (induction ls arbitrary: books)
  case Nil
  then show ?case by simp
next
  case (Cons line rest)
  show ?case
  proof (cases "strip line = [] \<or> loads line = None")
    case True
    then have "parse_lines loads repr books rest = Inr books'"
      using Cons.prems(1) by (auto split: if_splits)
    from Cons.IH [OF this Cons.prems(2)] show ?thesis by auto
  next
    case False
    then obtain row where row: "loads line = Some row" and nb: "strip line \<noteq> []"
      by auto
    show ?thesis
    proof (cases "load_row repr row")
      case (Inl e)
      with row nb Cons.prems(1) show ?thesis by simp
    next
      case (Inr r)
      show ?thesis
      proof (cases r)
        case None
        with Inr row nb Cons.prems(1) have "parse_lines loads repr books rest = Inr books'"
          by simp
        from Cons.IH [OF this Cons.prems(2)] nb show ?thesis by auto
      next
        case (Some te)
        obtain t e where te: "te = (t, e)" by (cases te)
        with Some Inr row nb Cons.prems(1)
        have run: "parse_lines loads repr (dict_set books t e) rest = Inr books'"
          by simp
        from Some Inr te have "truthy t"
          using load_row_title by blast
        with Cons.prems(2) have "\<forall>t\<in>insert t (fst ` set books). truthy t"
          by blast
        then have "\<forall>t\<in>fst ` set (dict_set books t e). truthy t"
          using dict_set_keys [of books t e] by blast
        from Cons.IH [OF run this] nb dict_set_length [of books t e] show ?thesis
          by auto
      qed
    qed
  qed
qed

lemma parse_json_returned:
  "parse_json loads repr ls = Inr books \<Longrightarrow>
   (\<forall>t\<in>fst ` set books. truthy t) \<and> length books \<le> length (filter (\<lambda>l. strip l \<noteq> []) ls)"
  using parse_lines_returned [of loads repr "[]" ls books] by (simp add: parse_json_def)

text \<open>
  Claim C1 says that every file that can be opened is loaded, the lines that are not JSON
  records being skipped. A line that decodes to a JSON value other than an object is not
  skipped: \<open>row.get\<close> raises \<open>AttributeError\<close>, which nothing catches, and the
  whole load fails, also after a well-formed record.
\<close>

theorem parse_json_non_record_line:
  \<open>parse_json loads_demo repr_demo
     [py ''{"title": "Dune", "summary_short": "A desert planet saga.", "themes": ["scifi"]}'',
      py ''["Dune"]''] = Inl AttributeError\<close>
  by (simp add: parse_json_def loads_demo_def load_row_def dict_get_def coerce_themes_def py_or_def
      strip_def strip_with_def is_space_def)

text \<open>
  Claim C9, as stated: a themes field that is not a list is loaded as the one-element list
  of its string form. For the number 0 that would be the list of \<open>"0"\<close>; the loaded
  themes are the empty list, because \<^verbatim>\<open>row.get("themes") or []\<close> replaces every false
  value before the test.
\<close>

theorem themes_falsy_not_coerced:
  \<open>parse_json loads_demo repr_demo [py ''{"title": "Emma", "themes": 0}''] =
     Inr [(PStr (py ''Emma''), (PNone, []))] \<and>
   py_str repr_demo (PInt 0) = py ''0''\<close>
  by (simp add: parse_json_def loads_demo_def load_row_def dict_get_def coerce_themes_def py_or_def
      strip_def strip_with_def is_space_def int_str_def)

text \<open>
  Claim C9, amended: for every record with a title (one that can be a key), the loaded
  themes are the empty list when the themes field is absent or false (\<open>null\<close>,
  \<open>false\<close>, 0, the empty string, list or object), the one-element list of the string
  form of the field when it is true and not a list, and the field itself when it is a
  list; a file of that one record loads as that one entry.
\<close>

theorem themes_coercion:
  "(truthy (dict_get d (py ''title'')) \<and> hashable (dict_get d (py ''title'')) \<longrightarrow>
      (\<exists>entry. load_row repr (PDict d) = Inr (Some (dict_get d (py ''title''), entry)))) \<and>
   (load_row repr (PDict d) = Inr (Some (title, (summary, themes))) \<longrightarrow>
      (map_of d (py ''themes'') = None \<longrightarrow> themes = []) \<and>
      (\<forall>v. map_of d (py ''themes'') = Some v \<longrightarrow>
         (\<not> truthy v \<longrightarrow> themes = []) \<and>
         (truthy v \<and> (\<forall>xs. v \<noteq> PList xs) \<longrightarrow> themes = [PStr (py_str repr v)]) \<and>
         (\<forall>xs. v = PList xs \<longrightarrow> themes = xs))) \<and>
   (strip line \<noteq> [] \<and> loads line = Some (PDict d) \<and>
    load_row repr (PDict d) = Inr (Some (title, (summary, themes))) \<longrightarrow>
      parse_json loads repr [line] = Inr [(title, (summary, themes))])"
  by (auto simp: load_row_def Let_def dict_get_def coerce_themes_def py_or_def parse_json_def
      split: if_splits pyval.splits option.splits)

theorem themes_coercion_witness:
  \<open>truthy (PStr (py ''Emma'')) \<and> hashable (PStr (py ''Emma'')) \<and>
   truthy (PStr (py ''comedy'')) \<and>
   load_row repr_demo (PDict [(py ''title'', PStr (py ''Emma'')), (py ''themes'', PStr (py ''comedy''))]) =
     Inr (Some (PStr (py ''Emma''), (PNone, [PStr (py ''comedy'')]))) \<and>
   parse_json loads_demo repr_demo [py ''{"title": "Emma", "themes": "comedy"}''] =
     Inr [(PStr (py ''Emma''), (PNone, [PStr (py ''comedy'')]))] \<and>
   parse_json loads_demo repr_demo [py ''{"title": "Emma"}''] =
     Inr [(PStr (py ''Emma''), (PNone, []))]\<close>
proof -
  let ?d = "[(py ''title'', PStr (py ''Emma'')), (py ''themes'', PStr (py ''comedy''))]"
  let ?e = "[(py ''title'', PStr (py ''Emma''))]"
  have t: "dict_get ?d (py ''title'') = PStr (py ''Emma'')" "dict_get ?e (py ''title'') = PStr (py ''Emma'')"
    "truthy (PStr (py ''Emma''))" "hashable (PStr (py ''Emma''))" "truthy (PStr (py ''comedy''))"
    by (simp_all add: dict_get_def)
  have m: "map_of ?d (py ''themes'') = Some (PStr (py ''comedy''))" "map_of ?e (py ''themes'') = None"
    by simp_all
  have s: "dict_get ?d (py ''summary_short'') = PNone" "dict_get ?e (py ''summary_short'') = PNone"
    by (simp_all add: dict_get_def)
  have l: \<open>strip (py ''{"title": "Emma", "themes": "comedy"}'') \<noteq> []\<close>
    \<open>loads_demo (py ''{"title": "Emma", "themes": "comedy"}'') = Some (PDict ?d)\<close>
    \<open>strip (py ''{"title": "Emma"}'') \<noteq> []\<close>
    \<open>loads_demo (py ''{"title": "Emma"}'') = Some (PDict ?e)\<close>
    by (simp_all add: loads_demo_def strip_def strip_with_def is_space_def)
  have r: "load_row repr_demo (PDict ?d) = Inr (Some (PStr (py ''Emma''), (PNone, [PStr (py ''comedy'')])))"
    "load_row repr_demo (PDict ?e) = Inr (Some (PStr (py ''Emma''), (PNone, [])))"
    by (simp_all add: load_row_def Let_def dict_get_def coerce_themes_def py_or_def)
  have \<open>parse_json loads_demo repr_demo [py ''{"title": "Emma", "themes": "comedy"}''] =
     Inr [(PStr (py ''Emma''), (PNone, [PStr (py ''comedy'')]))]\<close>
    using themes_coercion [of ?d repr_demo "PStr (py ''Emma'')" PNone "[PStr (py ''comedy'')]"
        \<open>py ''{"title": "Emma", "themes": "comedy"}''\<close> loads_demo] r(1) l
    by blast
  moreover have \<open>parse_json loads_demo repr_demo [py ''{"title": "Emma"}''] =
     Inr [(PStr (py ''Emma''), (PNone, []))]\<close>
    using themes_coercion [of ?e repr_demo "PStr (py ''Emma'')" PNone "[]"
        \<open>py ''{"title": "Emma"}''\<close> loads_demo] r(2) l
    by blast
  ultimately show ?thesis using r t by simp
qed

section \<open>Properties of the summary tool\<close>

lemma summary_tool_absent:
  "title \<notin> fst ` set books \<Longrightarrow> make_get_summary_tool books title = []"
  by (simp add: make_get_summary_tool_def map_of_eq_None_iff [THEN iffD2])

lemma summary_tool_present:
  "distinct (map fst books) \<Longrightarrow> (title, (summary, themes)) \<in> set books \<Longrightarrow>
   make_get_summary_tool books title = (case summary of None \<Rightarrow> [] | Some s \<Rightarrow> s)"
  by (simp add: make_get_summary_tool_def str_or_empty_def)

text \<open>
  Claim C4: the tool returns the empty string for every title that is not a key of the
  catalog; for a key it returns the stored summary, or the empty string when none is
  stored; and the lookup is exact, without case folding: a title that is no key yields the
  empty string also when it differs from a stored title only in case.
\<close>

theorem summary_tool_exact_match:
  "(title \<notin> fst ` set books \<longrightarrow> make_get_summary_tool books title = []) \<and>
   (distinct (map fst books) \<and> (title, (summary, themes)) \<in> set books \<longrightarrow>
      make_get_summary_tool books title = (case summary of None \<Rightarrow> [] | Some s \<Rightarrow> s)) \<and>
   (stored \<in> fst ` set books \<and> differs_in_case_only title stored \<and> title \<notin> fst ` set books \<longrightarrow>
      make_get_summary_tool books title = [])"
  using summary_tool_absent summary_tool_present by blast

theorem summary_tool_exact_match_witness:
  "py ''Persuasion'' \<notin> fst ` set books_demo \<and>
   make_get_summary_tool books_demo (py ''Persuasion'') = [] \<and>
   distinct (map fst books_demo) \<and>
   (py ''Dune'', (Some (py ''A desert planet saga.''), [py ''scifi'', py ''desert''])) \<in> set books_demo \<and>
   make_get_summary_tool books_demo (py ''Dune'') = py ''A desert planet saga.'' \<and>
   (py ''Emma'', (None, [])) \<in> set books_demo \<and>
   make_get_summary_tool books_demo (py ''Emma'') = [] \<and>
   py ''Dune'' \<in> fst ` set books_demo \<and>
   differs_in_case_only (py ''dune'') (py ''Dune'') \<and>
   py ''dune'' \<notin> fst ` set books_demo \<and>
   make_get_summary_tool books_demo (py ''dune'') = []"
proof -
  have a: "py ''Persuasion'' \<notin> fst ` set books_demo" "py ''dune'' \<notin> fst ` set books_demo"
    "py ''Dune'' \<in> fst ` set books_demo"
    by (simp_all add: books_demo_def)
  have b: "distinct (map fst books_demo)"
    "(py ''Dune'', (Some (py ''A desert planet saga.''), [py ''scifi'', py ''desert''])) \<in> set books_demo"
    "(py ''Emma'', (None, [])) \<in> set books_demo"
    by (simp_all add: books_demo_def)
  have c: "differs_in_case_only (py ''dune'') (py ''Dune'')"
    by (simp add: differs_in_case_only_def lower_char_def)
  have "make_get_summary_tool books_demo (py ''Persuasion'') = []"
    using summary_tool_exact_match [of "py ''Persuasion''" books_demo] a by blast
  moreover have "make_get_summary_tool books_demo (py ''Dune'') = py ''A desert planet saga.''"
    using summary_tool_exact_match [of "py ''Dune''" books_demo "Some (py ''A desert planet saga.'')"] b
    by simp
  moreover have "make_get_summary_tool books_demo (py ''Emma'') = []"
    using summary_tool_exact_match [of "py ''Emma''" books_demo None] b by simp
  moreover have "make_get_summary_tool books_demo (py ''dune'') = []"
    using summary_tool_exact_match [of "py ''dune''" books_demo _ _ "py ''Dune''"] a c by blast
  ultimately show ?thesis using a b c by blast
qed

section \<open>Properties of the report\<close>

text \<open>
  Claim C6, as stated, has any other or missing status print whatever free text is
  present. The last branch reads the \<open>verbal\<close> field only: an answer without status
  whose free text is a blurb prints the prompt alone.
\<close>

theorem print_result_ignores_blurb:
  "dict_get [(py ''blurb'', PStr (py ''A fine book.''))] (py ''blurb'') = PStr (py ''A fine book.'') \<and>
   print_result repr_demo [(py ''blurb'', PStr (py ''A fine book.''))] books_demo =
     ([10 # py ''Bot> ''], None)"
  by (simp add: print_result_def dict_get_def dict_get_default_def print2_def)

lemma ok_known:
  assumes "dict_get data (py ''status'') = PStr (py ''ok'')"
    and "dict_get data (py ''title'') = PStr t" and "t \<noteq> []"
    and "map_of books t = Some (Some s, themes)" and "s \<noteq> []"
  shows "print_result repr data books =
     ([print2 (10 # py ''Bot>'')
         (py_str repr (if truthy (dict_get data (py ''verbal'')) then dict_get data (py ''verbal'')
                       else dict_get_default data (py ''blurb'') (PStr []))),
       10 # py ''[Summary]'' @ [10] @ s], None)"
  using assms by (simp add: print_result_def Let_def py_or_def book_lookup_def str_or_empty_def)

lemma ok_no_summary:
  assumes "dict_get data (py ''status'') = PStr (py ''ok'')"
    and "dict_get data (py ''title'') = PStr t"
    and "map_of books t = None \<or> map_of books t = Some (None, themes) \<or>
         map_of books t = Some (Some [], themes)"
  shows "print_result repr data books =
     ([print2 (10 # py ''Bot>'')
         (py_str repr (if truthy (dict_get data (py ''verbal'')) then dict_get data (py ''verbal'')
                       else dict_get_default data (py ''blurb'') (PStr [])))], None)"
  using assms
  by (cases "t = []") (auto simp: print_result_def Let_def py_or_def book_lookup_def str_or_empty_def)

lemma ok_no_title:
  assumes "dict_get data (py ''status'') = PStr (py ''ok'')"
    and "\<not> truthy (dict_get data (py ''title''))"
  shows "print_result repr data books =
     ([print2 (10 # py ''Bot>'')
         (py_str repr (if truthy (dict_get data (py ''verbal'')) then dict_get data (py ''verbal'')
                       else dict_get_default data (py ''blurb'') (PStr [])))], None)"
  using assms by (simp add: print_result_def Let_def py_or_def)

lemma status_no_match:
  assumes "dict_get data (py ''status'') = PStr (py ''no_match'')"
  shows "print_result repr data books =
        ([10 # py ''Bot> I couldn't match anything in the context.''], None)"
  using assms by (simp add: print_result_def Let_def)

lemma status_refuse:
  assumes "dict_get data (py ''status'') = PStr (py ''refuse'')"
  shows "print_result repr data books =
        ([10 # py ''Bot> I can'' @ [8217] @ py ''t help with that request.''], None)"
  using assms by (simp add: print_result_def Let_def)

lemma status_other:
  assumes "dict_get data (py ''status'') \<noteq> PStr (py ''ok'')"
    and "dict_get data (py ''status'') \<noteq> PStr (py ''no_match'')"
    and "dict_get data (py ''status'') \<noteq> PStr (py ''refuse'')"
  shows "print_result repr data books =
        ([print2 (10 # py ''Bot>'')
            (py_str repr (case map_of data (py ''verbal'') of None \<Rightarrow> PStr [] | Some v \<Rightarrow> v))], None)"
  using assms by (simp add: print_result_def Let_def dict_get_default_def)

text \<open>
  Claim C6, amended. Every branch prints the prompt \<open>Bot>\<close> after an empty line.
  Status \<open>ok\<close> prints the verbal text or, when it is absent or empty, the blurb, and
  when the title is a non-empty string that is a key of the catalog with a non-empty stored
  summary it also prints \<open>[Summary]\<close> and that summary; when the title is a string
  that is not a key, or the stored summary is absent or empty, or the title is absent or
  empty, only the first line is printed and nothing is raised. Status \<open>no_match\<close>
  prints exactly the fixed phrase, \<open>refuse\<close> the fixed refusal, and any other or
  missing status prints the \<open>verbal\<close> field if there is one and nothing after the
  prompt otherwise.
\<close>

theorem print_result_branches:
  "(dict_get data (py ''status'') = PStr (py ''ok'') \<and> line = print2 (10 # py ''Bot>'')
        (py_str repr (if truthy (dict_get data (py ''verbal'')) then dict_get data (py ''verbal'')
                      else dict_get_default data (py ''blurb'') (PStr []))) \<longrightarrow>
      (dict_get data (py ''title'') = PStr t \<and> t \<noteq> [] \<and>
       map_of books t = Some (Some s, themes) \<and> s \<noteq> [] \<longrightarrow>
         print_result repr data books = ([line, 10 # py ''[Summary]'' @ [10] @ s], None)) \<and>
      (dict_get data (py ''title'') = PStr t \<and>
       (map_of books t = None \<or> map_of books t = Some (None, themes) \<or>
        map_of books t = Some (Some [], themes)) \<longrightarrow>
         print_result repr data books = ([line], None)) \<and>
      (\<not> truthy (dict_get data (py ''title'')) \<longrightarrow>
         print_result repr data books = ([line], None))) \<and>
   (dict_get data (py ''status'') = PStr (py ''no_match'') \<longrightarrow>
      print_result repr data books =
        ([10 # py ''Bot> I couldn't match anything in the context.''], None)) \<and>
   (dict_get data (py ''status'') = PStr (py ''refuse'') \<longrightarrow>
      print_result repr data books =
        ([10 # py ''Bot> I can'' @ [8217] @ py ''t help with that request.''], None)) \<and>
   (dict_get data (py ''status'') \<noteq> PStr (py ''ok'') \<and>
    dict_get data (py ''status'') \<noteq> PStr (py ''no_match'') \<and>
    dict_get data (py ''status'') \<noteq> PStr (py ''refuse'') \<longrightarrow>
      print_result repr data books =
        ([print2 (10 # py ''Bot>'')
            (py_str repr (case map_of data (py ''verbal'') of None \<Rightarrow> PStr [] | Some v \<Rightarrow> v))], None))"
  apply (intro conjI impI)
  subgoal by (elim conjE, hypsubst, rule ok_known; assumption)
  subgoal by (elim conjE, hypsubst, rule ok_no_summary [where themes = themes]; assumption)
  subgoal by (elim conjE, hypsubst, rule ok_no_title; assumption)
  subgoal by (rule status_no_match)
  subgoal by (rule status_refuse)
  subgoal by (elim conjE, rule status_other; assumption)
  done

theorem print_result_branches_witness:
  "print_result repr_demo
     [(py ''status'', PStr (py ''ok'')), (py ''title'', PStr (py ''Dune'')),
      (py ''verbal'', PStr (py ''I recommend Dune.''))] books_demo =
     ([10 # py ''Bot> I recommend Dune.'', 10 # py ''[Summary]'' @ [10] @ py ''A desert planet saga.''], None) \<and>
   print_result repr_demo
     [(py ''status'', PStr (py ''ok'')), (py ''title'', PStr (py ''Dune'')),
      (py ''blurb'', PStr (py ''A classic.''))] [] =
     ([10 # py ''Bot> A classic.''], None) \<and>
   print_result repr_demo [(py ''status'', PStr (py ''no_match''))] books_demo =
     ([10 # py ''Bot> I couldn't match anything in the context.''], None) \<and>
   print_result repr_demo [(py ''status'', PStr (py ''refuse''))] books_demo =
     ([10 # py ''Bot> I can'' @ [8217] @ py ''t help with that request.''], None) \<and>
   print_result repr_demo [(py ''verbal'', PStr (py ''Hello.''))] books_demo =
     ([10 # py ''Bot> Hello.''], None)"
proof -
  let ?d1 = "[(py ''status'', PStr (py ''ok'')), (py ''title'', PStr (py ''Dune'')),
      (py ''verbal'', PStr (py ''I recommend Dune.''))]"
  let ?d2 = "[(py ''status'', PStr (py ''ok'')), (py ''title'', PStr (py ''Dune'')),
      (py ''blurb'', PStr (py ''A classic.''))]"
  have g1: "dict_get ?d1 (py ''status'') = PStr (py ''ok'')"
    "dict_get ?d1 (py ''title'') = PStr (py ''Dune'')"
    "dict_get ?d1 (py ''verbal'') = PStr (py ''I recommend Dune.'')"
    "map_of books_demo (py ''Dune'') = Some (Some (py ''A desert planet saga.''), [py ''scifi'', py ''desert''])"
    by (simp_all add: dict_get_def books_demo_def)
  have g2: "dict_get ?d2 (py ''status'') = PStr (py ''ok'')"
    "dict_get ?d2 (py ''title'') = PStr (py ''Dune'')"
    "dict_get ?d2 (py ''verbal'') = PNone"
    "dict_get_default ?d2 (py ''blurb'') (PStr []) = PStr (py ''A classic.'')"
    "map_of ([] :: books_dict) (py ''Dune'') = None"
    by (simp_all add: dict_get_def dict_get_default_def)
  have g3: "dict_get [(py ''status'', PStr (py ''no_match''))] (py ''status'') = PStr (py ''no_match'')"
    "dict_get [(py ''status'', PStr (py ''refuse''))] (py ''status'') = PStr (py ''refuse'')"
    by (simp_all add: dict_get_def)
  have g4: "dict_get [(py ''verbal'', PStr (py ''Hello.''))] (py ''status'') = PNone"
    "map_of [(py ''verbal'', PStr (py ''Hello.''))] (py ''verbal'') = Some (PStr (py ''Hello.''))"
    by (simp_all add: dict_get_def)
  have "print_result repr_demo ?d1 books_demo =
      ([print2 (10 # py ''Bot>'') (py ''I recommend Dune.''),
        10 # py ''[Summary]'' @ [10] @ py ''A desert planet saga.''], None)"
    using print_result_branches [of ?d1 _ repr_demo "py ''Dune''" books_demo
        "py ''A desert planet saga.''" "[py ''scifi'', py ''desert'']"] g1
    by simp
  moreover have "print_result repr_demo ?d2 [] = ([print2 (10 # py ''Bot>'') (py ''A classic.'')], None)"
    using print_result_branches [of ?d2 _ repr_demo "py ''Dune''" "[]"] g2
    by simp
  moreover have "print_result repr_demo [(py ''status'', PStr (py ''no_match''))] books_demo =
      ([10 # py ''Bot> I couldn't match anything in the context.''], None)"
    using print_result_branches [of "[(py ''status'', PStr (py ''no_match''))]" _ repr_demo _ books_demo] g3
    by blast
  moreover have "print_result repr_demo [(py ''status'', PStr (py ''refuse''))] books_demo =
      ([10 # py ''Bot> I can'' @ [8217] @ py ''t help with that request.''], None)"
    using print_result_branches [of "[(py ''status'', PStr (py ''refuse''))]" _ repr_demo _ books_demo] g3
    by blast
  moreover have "print_result repr_demo [(py ''verbal'', PStr (py ''Hello.''))] books_demo =
      ([print2 (10 # py ''Bot>'') (py ''Hello.'')], None)"
    using print_result_branches [of "[(py ''verbal'', PStr (py ''Hello.''))]" _ repr_demo _ books_demo] g4
    by simp
  ultimately show ?thesis
    by (simp add: print2_def)
qed

section \<open>Properties of the tool resolution\<close>

text \<open>
  Claim C8, as stated: the title argument is what the tool is invoked with, and only an
  empty argument is replaced by the remembered fallback. The argument is stripped of white
  space first: the argument of three spaces is not empty, yet the tool is run with the
  fallback \<open>Dune\<close> and returns its summary, where the argument itself is no key.
\<close>

theorem blank_title_replaced:
  "call_args loads_demo call_blank_demo = PDict [(py ''title'', PStr (py ''   ''))] \<and>
   only_title hit_demo = Some (py ''Dune'') \<and>
   title_argument loads_demo call_blank_demo (only_title hit_demo) = Inr (py ''Dune'') \<and>
   tool_result books_demo call_blank_demo (py ''Dune'') = py ''A desert planet saga.'' \<and>
   make_get_summary_tool books_demo (py ''   '') = []"
  by (simp add: call_args_def loads_or_empty_object_def loads_demo_def call_blank_demo_def
      only_title_def valid_titles_def hit_demo_def first_list_def List.map_filter_def
      title_argument_def py_or_def dict_get_def strip_def strip_with_def is_space_def
      tool_result_def make_get_summary_tool_def books_demo_def str_or_empty_def)

lemma distinct_singleton: "distinct xs \<Longrightarrow> (xs = [t]) = (set xs = {t})"
proof (cases xs)
  case Nil
  then show ?thesis by simp
next
  case (Cons a ys)
  assume "distinct xs"
  with Cons show ?thesis by (cases ys) auto
qed

lemma set_valid_titles:
  "set (valid_titles ms) = {x. x \<noteq> [] \<and> (\<exists>m\<in>set ms. map_of m (py ''title'') = Some x)}"
proof -
  have "set (List.map_filter f ms) = {x. \<exists>m\<in>set ms. f m = Some x}" for f :: "meta \<Rightarrow> pystr option"
    by (induction ms) (auto simp: List.map_filter_def)
  then show ?thesis by (auto simp: valid_titles_def)
qed

lemma only_title_Some:
  "(only_title r = Some t) =
   ({x. x \<noteq> [] \<and> (\<exists>m\<in>set (first_list (metadatas r)). map_of m (py ''title'') = Some x)} = {t})"
proof -
  let ?v = "valid_titles (first_list (metadatas r))"
  have d: "distinct ?v" by (simp add: valid_titles_def)
  have "(only_title r = Some t) = (?v = [t])"
    by (auto simp: only_title_def split: list.splits)
  also have "\<dots> = (set ?v = {t})"
    using d by (rule distinct_singleton)
  finally show ?thesis by (simp only: set_valid_titles)
qed

lemma title_argument_stripped:
  assumes "call_args loads call = PDict d"
    and "py_or (dict_get d (py ''title'')) (PStr []) = PStr s"
  shows "title_argument loads call fallback =
     Inr (if strip s = [] then (case fallback of None \<Rightarrow> [] | Some t \<Rightarrow> t) else strip s)"
  using assms by (auto simp: title_argument_def Let_def split: option.splits)

lemma call_args_undecodable:
  "c_arguments call = Some a \<Longrightarrow> a \<noteq> [] \<Longrightarrow> loads a = None \<Longrightarrow> call_args loads call = PDict []"
  by (simp add: call_args_def loads_or_empty_object_def)

text \<open>
  Claim C8, amended. When the arguments decode to an object (an undecodable text counts as
  the empty object) whose title is a string, or is absent or false: the tool is invoked
  with the title stripped of surrounding white space, and if that is empty, with the
  remembered fallback title, or the empty string when none is remembered. The tool runs
  when the call names \<open>get_summary_by_title\<close>; for any other name its result is the
  empty string. A fallback \<open>t\<close> is remembered exactly when the non-empty titles of the
  retrieved metadata are the one title \<open>t\<close>; with none or several, nothing is remembered.
\<close>

theorem tool_resolution:
  "(call_args loads call = PDict d \<and> py_or (dict_get d (py ''title'')) (PStr []) = PStr s \<longrightarrow>
      title_argument loads call (only_title r) =
        Inr (if strip s = [] then (case only_title r of None \<Rightarrow> [] | Some t \<Rightarrow> t) else strip s)) \<and>
   (c_name call = Some (py ''get_summary_by_title'') \<longrightarrow>
      tool_result books call title_arg = make_get_summary_tool books title_arg) \<and>
   (c_name call \<noteq> Some (py ''get_summary_by_title'') \<longrightarrow> tool_result books call title_arg = []) \<and>
   (only_title r = Some t) =
     ({x. x \<noteq> [] \<and> (\<exists>m\<in>set (first_list (metadatas r)). map_of m (py ''title'') = Some x)} = {t})"
  apply (intro conjI impI)
  subgoal by (elim conjE, rule title_argument_stripped; assumption)
  subgoal by (simp add: tool_result_def)
  subgoal by (simp add: tool_result_def)
  subgoal by (rule only_title_Some)
  done

theorem tool_resolution_witness:
  "call_args loads_demo call_blank_demo = PDict [(py ''title'', PStr (py ''   ''))] \<and>
   py_or (dict_get [(py ''title'', PStr (py ''   ''))] (py ''title'')) (PStr []) = PStr (py ''   '') \<and>
   only_title hit_demo = Some (py ''Dune'') \<and>
   title_argument loads_demo call_blank_demo (only_title hit_demo) = Inr (py ''Dune'') \<and>
   only_title two_titles_demo = None \<and>
   title_argument loads_demo call_blank_demo (only_title two_titles_demo) = Inr [] \<and>
   only_title no_hits_demo = None \<and>
   title_argument loads_demo call_blank_demo (only_title no_hits_demo) = Inr [] \<and>
   c_name call_blank_demo = Some (py ''get_summary_by_title'') \<and>
   tool_result books_demo call_blank_demo (py ''Dune'') = py ''A desert planet saga.''"
proof -
  let ?d = "[(py ''title'', PStr (py ''   ''))]"
  have a: "call_args loads_demo call_blank_demo = PDict ?d"
    by (simp add: call_args_def loads_or_empty_object_def loads_demo_def call_blank_demo_def)
  have b: "py_or (dict_get ?d (py ''title'')) (PStr []) = PStr (py ''   '')"
    by (simp add: py_or_def dict_get_def)
  have s: "strip (py ''   '') = []"
    by (simp add: strip_def strip_with_def is_space_def)
  have o: "only_title hit_demo = Some (py ''Dune'')" "only_title two_titles_demo = None"
    "only_title no_hits_demo = None"
    by (simp_all add: only_title_def valid_titles_def hit_demo_def two_titles_demo_def
        no_hits_demo_def first_list_def List.map_filter_def)
  have n: "c_name call_blank_demo = Some (py ''get_summary_by_title'')"
    by (simp add: call_blank_demo_def)
  have m: "make_get_summary_tool books_demo (py ''Dune'') = py ''A desert planet saga.''"
    by (simp add: make_get_summary_tool_def books_demo_def str_or_empty_def)
  have "title_argument loads_demo call_blank_demo (only_title hit_demo) = Inr (py ''Dune'')"
    using tool_resolution [of loads_demo call_blank_demo ?d "py ''   ''" hit_demo] a b s o
    by simp
  moreover have "title_argument loads_demo call_blank_demo (only_title two_titles_demo) = Inr []"
    using tool_resolution [of loads_demo call_blank_demo ?d "py ''   ''" two_titles_demo] a b s o
    by simp
  moreover have "title_argument loads_demo call_blank_demo (only_title no_hits_demo) = Inr []"
    using tool_resolution [of loads_demo call_blank_demo ?d "py ''   ''" no_hits_demo] a b s o
    by simp
  moreover have "tool_result books_demo call_blank_demo (py ''Dune'') = py ''A desert planet saga.''"
    using tool_resolution [of loads_demo call_blank_demo ?d "py ''   ''" hit_demo books_demo "py ''Dune''"] n m
    by simp
  ultimately show ?thesis using a b o n by simp
qed

section \<open>Properties of the run\<close>

lemma print_not_media: "e \<in> set (map Print xs) \<Longrightarrow> \<not> is_media e"
  by auto

lemma raw_response_not_media: "\<not> is_media (raw_response text)"
  by (simp add: raw_response_def)

lemma resolve_not_media:
  "resolve loads w books results = Inl (es, r) \<Longrightarrow> e \<in> set es \<Longrightarrow> \<not> is_media e"
  "resolve loads w books results = Inr (es, fd) \<Longrightarrow> e \<in> set es \<Longrightarrow> \<not> is_media e"
  by (auto simp: resolve_def Let_def raw_response_def split: option.splits sum.splits)

lemma report_media:
  assumes "e \<in> set (fst (report repr w books fd))" and "is_media e"
  shows "\<exists>d. fd = PDict d \<and> dict_get d (py ''status'') = PStr (py ''ok'') \<and>
             truthy (dict_get d (py ''title''))"
proof (cases fd)
  case (PDict d)
  obtain printed err where pr: "print_result repr d books = (printed, err)"
    by (cases "print_result repr d books")
  show ?thesis
  proof (cases "err = None \<and> truthy fd \<and> dict_get d (py ''status'') = PStr (py ''ok'')
                 \<and> truthy (dict_get d (py ''title''))")
    case True
    with PDict show ?thesis by simp
  next
    case False
    with PDict pr have "fst (report repr w books fd) = map Print printed"
      by (cases err) (auto simp: report_def)
    with assms print_not_media show ?thesis by metis
  qed
qed (use assms in \<open>simp_all add: report_def\<close>)

lemma main_events:
  "fst (main loads repr w books results) =
     Print (10 # py ''Context:'' @ [10] @ py ''---'' @ [10] @ build_context_from_results results 1 @ [10] @ py ''---'') #
     (case resolve loads w books results of
        Inl (es, r) \<Rightarrow> es
      | Inr (es, fd) \<Rightarrow> es @ fst (report repr w books fd))"
  by (simp add: main_def Let_def split: sum.splits prod.splits)

lemma main_media:
  assumes "e \<in> set (fst (main loads repr w books results))" and "is_media e"
  shows "\<exists>es d. resolve loads w books results = Inr (es, PDict d) \<and>
           dict_get d (py ''status'') = PStr (py ''ok'') \<and> truthy (dict_get d (py ''title''))"
proof (cases "resolve loads w books results")
  case (Inl a)
  obtain es r where "a = (es, r)" by (cases a)
  with Inl assms resolve_not_media(1) [of loads w books results es r e] show ?thesis
    by (auto simp: main_events)
next
  case (Inr b)
  obtain es fd where b: "b = (es, fd)" by (cases b)
  with Inr assms resolve_not_media(2) [of loads w books results es fd e]
  have "e \<in> set (fst (report repr w books fd))"
    by (auto simp: main_events)
  from report_media [OF this assms(2)] Inr b show ?thesis by auto
qed

lemma demo_title: "title_argument loads_demo call_dune_demo (only_title hit_demo) = Inr (py ''Dune'')"
  by (simp add: title_argument_def call_args_def loads_or_empty_object_def loads_demo_def
      call_dune_demo_def py_or_def dict_get_def strip_def strip_with_def is_space_def
      only_title_def valid_titles_def hit_demo_def first_list_def List.map_filter_def)

lemma demo_tool: "tool_result books_demo call_dune_demo (py ''Dune'') = py ''A desert planet saga.''"
  "call_identifier call_dune_demo = Some (py ''call_1'')"
  by (simp_all add: tool_result_def call_dune_demo_def make_get_summary_tool_def books_demo_def
      str_or_empty_def call_identifier_def)

lemma demo_first:
  "first_final_data loads_demo (first (world_demo final)) = None"
  "find_call (output_items (first (world_demo final))) = Some call_dune_demo"
  "final_output_text (world_demo final) c r = final"
  by (simp_all add: world_demo_def first_final_data_def)

lemma demo_context:
  "build_context_from_results hit_demo 1 = py ''Title: Dune'' @ [10] @ py ''Summary: A desert planet saga.''"
  by (simp add: build_context_from_results_def hit_demo_def first_list_def slice_to_def stanza_def)

lemma demo_loads:
  \<open>loads_or_empty_object loads_demo (Some (py ''{"status": "ok", "title": "Dune", "verbal": "I recommend Dune."}'')) =
     Some (PDict [(py ''status'', PStr (py ''ok'')), (py ''title'', PStr (py ''Dune'')),
                  (py ''verbal'', PStr (py ''I recommend Dune.''))])\<close>
  \<open>loads_or_empty_object loads_demo (Some (py ''{"status": "no_match"}'')) =
     Some (PDict [(py ''status'', PStr (py ''no_match''))])\<close>
  \<open>loads_or_empty_object loads_demo (Some (py ''Sorry, I cannot answer in JSON.'')) = None\<close>
  by (simp_all add: loads_or_empty_object_def loads_demo_def)

lemma demo_resolve:
  "loads_or_empty_object loads_demo (Some final) = Some fd \<Longrightarrow>
   resolve loads_demo (world_demo final) books_demo hit_demo =
     Inr ([FunctionCallOutput (Some (py ''call_1'')) (py ''A desert planet saga.'')], fd)"
  by (simp add: resolve_def demo_first demo_title [simplified] demo_tool [simplified] Let_def)

lemma demo_resolve_raw:
  "loads_or_empty_object loads_demo (Some final) = None \<Longrightarrow>
   resolve loads_demo (world_demo final) books_demo hit_demo =
     Inl ([FunctionCallOutput (Some (py ''call_1'')) (py ''A desert planet saga.''),
           raw_response final], None)"
  by (simp add: resolve_def demo_first demo_title [simplified] demo_tool [simplified] Let_def)

lemma demo_report_ok:
  "report repr_demo (world_demo final) books_demo
     (PDict [(py ''status'', PStr (py ''ok'')), (py ''title'', PStr (py ''Dune'')),
             (py ''verbal'', PStr (py ''I recommend Dune.''))]) =
   ([Print (10 # py ''Bot> I recommend Dune.''),
     Print (10 # py ''[Summary]'' @ [10] @ py ''A desert planet saga.''),
     AskImage,
     CoverImage (PStr (py ''Dune'')) (PStr (py ''A desert planet saga.'')),
     Print (py ''[image saved] Images and TTS/cover_Dune.png''),
     AskTTS], None)"
  by (simp add: report_def print_result_def media_def dict_get_def dict_get_default_def py_or_def
      book_lookup_def books_demo_def str_or_empty_def print2_def world_demo_def Let_def)

lemma demo_main_ok:
  \<open>main loads_demo repr_demo
     (world_demo (py ''{"status": "ok", "title": "Dune", "verbal": "I recommend Dune."}''))
     books_demo hit_demo =
   ([Print (10 # py ''Context:'' @ [10] @ py ''---'' @ [10] @
            py ''Title: Dune'' @ [10] @ py ''Summary: A desert planet saga.'' @ [10] @ py ''---''),
     FunctionCallOutput (Some (py ''call_1'')) (py ''A desert planet saga.''),
     Print (10 # py ''Bot> I recommend Dune.''),
     Print (10 # py ''[Summary]'' @ [10] @ py ''A desert planet saga.''),
     AskImage,
     CoverImage (PStr (py ''Dune'')) (PStr (py ''A desert planet saga.'')),
     Print (py ''[image saved] Images and TTS/cover_Dune.png''),
     AskTTS], None)\<close>
  by (simp add: main_def demo_resolve [OF demo_loads(1), simplified] demo_report_ok [simplified]
      demo_context [simplified] Let_def)

text \<open>
  Claim C7: a media event (a prompt for the image or the audio, or a media call) occurs in
  a run only when the final data is an object with status \<open>ok\<close> and a title; when the
  text of the second response does not decode, the run is the context, the tool output
  sent back and the raw text, and then it ends; and a final status \<open>no_match\<close> gives
  no media event.
\<close>

theorem media_only_when_ok:
  "((\<exists>e\<in>set (fst (main loads repr w books results)). is_media e) \<longrightarrow>
      (\<exists>es d. resolve loads w books results = Inr (es, PDict d) \<and>
         dict_get d (py ''status'') = PStr (py ''ok'') \<and> truthy (dict_get d (py ''title'')))) \<and>
   (first_final_data loads (first w) = None \<and>
    find_call (output_items (first w)) = Some call \<and>
    title_argument loads call (only_title results) = Inr title_arg \<and>
    text = final_output_text w (call_identifier call) (tool_result books call title_arg) \<and>
    loads_or_empty_object loads (Some text) = None \<longrightarrow>
      main loads repr w books results =
        ([Print (10 # py ''Context:'' @ [10] @ py ''---'' @ [10] @
                 build_context_from_results results 1 @ [10] @ py ''---''),
          FunctionCallOutput (call_identifier call) (tool_result books call title_arg),
          Print (10 # py ''Raw response:'' @ [10] @ [32] @ text)], None)) \<and>
   (resolve loads w books results = Inr (es, PDict d) \<and>
    dict_get d (py ''status'') = PStr (py ''no_match'') \<longrightarrow>
      \<not> (\<exists>e\<in>set (fst (main loads repr w books results)). is_media e))"
proof (intro conjI impI)
  assume "\<exists>e\<in>set (fst (main loads repr w books results)). is_media e"
  then show "\<exists>es d. resolve loads w books results = Inr (es, PDict d) \<and>
         dict_get d (py ''status'') = PStr (py ''ok'') \<and> truthy (dict_get d (py ''title''))"
    using main_media by blast
next
  assume a: "first_final_data loads (first w) = None \<and>
    find_call (output_items (first w)) = Some call \<and>
    title_argument loads call (only_title results) = Inr title_arg \<and>
    text = final_output_text w (call_identifier call) (tool_result books call title_arg) \<and>
    loads_or_empty_object loads (Some text) = None"
  then have "resolve loads w books results =
      Inl ([FunctionCallOutput (call_identifier call) (tool_result books call title_arg),
            raw_response text], None)"
    by (auto simp: resolve_def Let_def)
  then show "main loads repr w books results =
        ([Print (10 # py ''Context:'' @ [10] @ py ''---'' @ [10] @
                 build_context_from_results results 1 @ [10] @ py ''---''),
          FunctionCallOutput (call_identifier call) (tool_result books call title_arg),
          Print (10 # py ''Raw response:'' @ [10] @ [32] @ text)], None)"
    by (simp add: main_def Let_def raw_response_def print2_def)
next
  assume a: "resolve loads w books results = Inr (es, PDict d) \<and>
    dict_get d (py ''status'') = PStr (py ''no_match'')"
  show "\<not> (\<exists>e\<in>set (fst (main loads repr w books results)). is_media e)"
  proof
    assume "\<exists>e\<in>set (fst (main loads repr w books results)). is_media e"
    then obtain es' d' where "resolve loads w books results = Inr (es', PDict d')"
      and "dict_get d' (py ''status'') = PStr (py ''ok'')"
      using main_media by blast
    with a show False by simp
  qed
qed

theorem media_only_when_ok_witness:
  \<open>is_media AskImage \<and>
   AskImage \<in> set (fst (main loads_demo repr_demo
      (world_demo (py ''{"status": "ok", "title": "Dune", "verbal": "I recommend Dune."}''))
      books_demo hit_demo)) \<and>
   (\<exists>es d. resolve loads_demo
        (world_demo (py ''{"status": "ok", "title": "Dune", "verbal": "I recommend Dune."}''))
        books_demo hit_demo = Inr (es, PDict d) \<and>
      dict_get d (py ''status'') = PStr (py ''ok'') \<and> truthy (dict_get d (py ''title''))) \<and>
   loads_or_empty_object loads_demo (Some (py ''Sorry, I cannot answer in JSON.'')) = None \<and>
   main loads_demo repr_demo (world_demo (py ''Sorry, I cannot answer in JSON.'')) books_demo hit_demo =
     ([Print (10 # py ''Context:'' @ [10] @ py ''---'' @ [10] @
              py ''Title: Dune'' @ [10] @ py ''Summary: A desert planet saga.'' @ [10] @ py ''---''),
       FunctionCallOutput (Some (py ''call_1'')) (py ''A desert planet saga.''),
       Print (10 # py ''Raw response:'' @ [10] @ py '' Sorry, I cannot answer in JSON.'')], None) \<and>
   resolve loads_demo (world_demo (py ''{"status": "no_match"}'')) books_demo hit_demo =
     Inr ([FunctionCallOutput (Some (py ''call_1'')) (py ''A desert planet saga.'')],
          PDict [(py ''status'', PStr (py ''no_match''))]) \<and>
   list_all (\<lambda>e. \<not> is_media e)
     (fst (main loads_demo repr_demo (world_demo (py ''{"status": "no_match"}'')) books_demo hit_demo))\<close>
proof -
  let ?ok = \<open>world_demo (py ''{"status": "ok", "title": "Dune", "verbal": "I recommend Dune."}'')\<close>
  let ?bad = "world_demo (py ''Sorry, I cannot answer in JSON.'')"
  let ?no = \<open>world_demo (py ''{"status": "no_match"}'')\<close>
  have m: "AskImage \<in> set (fst (main loads_demo repr_demo ?ok books_demo hit_demo))"
    by (simp add: demo_main_ok [simplified])
  then have "\<exists>e\<in>set (fst (main loads_demo repr_demo ?ok books_demo hit_demo)). is_media e"
    by (rule bexI [where x = AskImage, rotated]) simp
  then have ok: "\<exists>es d. resolve loads_demo ?ok books_demo hit_demo = Inr (es, PDict d) \<and>
      dict_get d (py ''status'') = PStr (py ''ok'') \<and> truthy (dict_get d (py ''title''))"
    by (rule media_only_when_ok [THEN conjunct1, THEN mp])
  have t: "py ''Sorry, I cannot answer in JSON.'' =
      final_output_text ?bad (call_identifier call_dune_demo)
        (tool_result books_demo call_dune_demo (py ''Dune''))"
    by (simp only: demo_first(3))
  have "main loads_demo repr_demo ?bad books_demo hit_demo =
     ([Print (10 # py ''Context:'' @ [10] @ py ''---'' @ [10] @
              build_context_from_results hit_demo 1 @ [10] @ py ''---''),
       FunctionCallOutput (call_identifier call_dune_demo) (tool_result books_demo call_dune_demo (py ''Dune'')),
       Print (10 # py ''Raw response:'' @ [10] @ [32] @ py ''Sorry, I cannot answer in JSON.'')], None)"
    by (rule media_only_when_ok [THEN conjunct2, THEN conjunct1, THEN mp])
       (intro conjI demo_first(1) demo_first(2) demo_title t demo_loads(3))
  then have bad: "main loads_demo repr_demo ?bad books_demo hit_demo =
     ([Print (10 # py ''Context:'' @ [10] @ py ''---'' @ [10] @
              (py ''Title: Dune'' @ [10] @ py ''Summary: A desert planet saga.'') @ [10] @ py ''---''),
       FunctionCallOutput (Some (py ''call_1'')) (py ''A desert planet saga.''),
       Print (10 # py ''Raw response:'' @ [10] @ [32] @ py ''Sorry, I cannot answer in JSON.'')], None)"
    by (simp only: demo_context demo_tool)
  have r: "resolve loads_demo ?no books_demo hit_demo =
     Inr ([FunctionCallOutput (Some (py ''call_1'')) (py ''A desert planet saga.'')],
          PDict [(py ''status'', PStr (py ''no_match''))])"
    by (rule demo_resolve [OF demo_loads(2)])
  have s: "dict_get [(py ''status'', PStr (py ''no_match''))] (py ''status'') = PStr (py ''no_match'')"
    by (simp add: dict_get_def)
  have "\<not> (\<exists>e\<in>set (fst (main loads_demo repr_demo ?no books_demo hit_demo)). is_media e)"
    by (rule media_only_when_ok [THEN conjunct2, THEN conjunct2, THEN mp]) (rule conjI, rule r, rule s)
  then have no: "list_all (\<lambda>e. \<not> is_media e) (fst (main loads_demo repr_demo ?no books_demo hit_demo))"
    by (simp only: list_all_iff bex_simps not_not)
  have "is_media AskImage" by simp
  with m ok demo_loads(3) bad r no show ?thesis
    by simp
qed

end
